theory Spec2Isabelle
  imports Main "HOL-Library.Sublist"
begin

section \<open>Data model of the query builder\<close>

text \<open>
  The Go package declares its vocabulary as named string types. A value of such a type
  can be any string, so each one is a synonym of \<open>string\<close> and the declared constants are
  definitions.
\<close>

type_synonym DBTable = string
type_synonym DBField = string
type_synonym QueryOperation = string
type_synonym JoinType = string
type_synonym OrderByType = string
type_synonym DBOperation = string

definition Count :: DBField where "Count = ''COUNT(*)''"

definition Insert :: QueryOperation where "Insert = ''INSERT INTO''"
definition Select :: QueryOperation where "Select = ''SELECT''"
definition Update :: QueryOperation where "Update = ''UPDATE''"
definition Delete :: QueryOperation where "Delete = ''DELETE''"

definition InnerJoin :: JoinType where "InnerJoin = ''INNER''"
definition LeftJoin :: JoinType where "LeftJoin = ''LEFT''"
definition RightJoin :: JoinType where "RightJoin = ''RIGHT''"
definition CrossJoin :: JoinType where "CrossJoin = ''CROSS''"
definition FullJoin :: JoinType where "FullJoin = ''FULL''"

definition Desc :: OrderByType where "Desc = ''DESC''"
definition ASC :: OrderByType where "ASC = ''ASC''"

definition NotEqual :: DBOperation where "NotEqual = ''NOT EQUAL''"
definition Equal :: DBOperation where "Equal = ''=''"
definition LessOrEqual :: DBOperation where "LessOrEqual = ''<=''"
definition LessThan :: DBOperation where "LessThan = ''<''"
definition GreaterOrEqual :: DBOperation where "GreaterOrEqual = ''>=''"
definition GreaterThan :: DBOperation where "GreaterThan = ''>''"
definition NotInt :: DBOperation where "NotInt = ''NOT IN''"
definition In :: DBOperation where "In = ''IN''"
definition Like :: DBOperation where "Like = ''LIKE''"

text \<open>
  The values bound to placeholders have Go's type \<open>any\<close>. The builder only stores and
  returns them, so a small universe of values is enough; \<open>Limit\<close> stores its \<open>int\<close>
  argument, on which no arithmetic is done.
\<close>

datatype any = AnyInt int | AnyString string | AnyBool bool | AnyNil

text \<open>
  The accumulator \<open>Query\<close>. The fields \<open>where\<close> and \<open>fields\<close> of the source are
  \<open>where'\<close> and \<open>fields'\<close> here: \<open>where\<close> is a keyword and the record package
  reserves \<open>fields\<close>.
\<close>

record Query =
  Table :: DBTable
  fields' :: "DBField list"
  where' :: "string list"
  params :: "any list"
  join :: "string list"
  aggregations :: "string list"
  aggregationParams :: "any list"
  sets :: "string list"
  setParams :: "any list"

text \<open>
  A \<open>QueryBuilderOption\<close> is a closure \<open>func(query *Query)\<close> that mutates the accumulator
  it is given; here it maps the accumulator to the updated one. Callers may write their
  own closures (the tests do), so the type is the whole function space.
\<close>

type_synonym QueryBuilderOption = "Query \<Rightarrow> Query"

text \<open>The zero value \<open>&Query{}\<close>, and the accumulator a terminal builder starts from.\<close>

definition zeroQuery :: Query where
  "zeroQuery = \<lparr>Table = [], fields' = [], where' = [], params = [], join = [],
     aggregations = [], aggregationParams = [], sets = [], setParams = []\<rparr>"

definition newQueryFor :: "DBTable \<Rightarrow> Query" where
  "newQueryFor table = \<lparr>Table = table, fields' = [], where' = [], params = [], join = [],
     aggregations = [], aggregationParams = [], sets = [], setParams = []\<rparr>"

section \<open>The library function \<open>strings.Replace\<close>\<close>

text \<open>
  \<open>strings.Replace(s, old, new, n)\<close> of the Go standard library returns \<open>s\<close> with the
  first \<open>n\<close> non-overlapping instances of \<open>old\<close> replaced by \<open>new\<close>, scanning from the
  left. With an empty \<open>old\<close> it matches at the beginning of the string and after each
  character (one-byte characters here). The builder calls it with the counts 11 and 1,
  so the count is a \<open>nat\<close>.
\<close>

fun insertNew :: "string \<Rightarrow> string \<Rightarrow> nat \<Rightarrow> string" where
  "insertNew s new 0 = s"
| "insertNew [] new (Suc n) = new"
| "insertNew (c # cs) new (Suc n) = new @ c # insertNew cs new n"

fun replaceFrom :: "string \<Rightarrow> string \<Rightarrow> string \<Rightarrow> nat \<Rightarrow> string" where
  "replaceFrom [] old new n = []"
| "replaceFrom (c # cs) old new n =
     (if n = 0 \<or> old = [] then c # cs
      else if prefix old (c # cs)
        then new @ replaceFrom (drop (length old) (c # cs)) old new (n - 1)
      else c # replaceFrom cs old new n)"

definition strings_Replace :: "string \<Rightarrow> string \<Rightarrow> string \<Rightarrow> nat \<Rightarrow> string" where
  "strings_Replace s old new n =
     (if old = new \<or> n = 0 then s
      else if old = [] then insertNew s new n
      else replaceFrom s old new n)"

section \<open>Fragment contributors\<close>

text \<open>
  A Go loop \<open>for i, w := range xs { body }\<close> is a \<open>fold\<close> of its body over
  \<open>enumerate 0 xs\<close>. The index comparisons \<open>i != len(xs)-1\<close> are on Go's signed \<open>int\<close>,
  hence on \<open>int\<close> here.
\<close>

definition buildWhere :: "Query \<Rightarrow> DBField \<Rightarrow> DBOperation \<Rightarrow> any list \<Rightarrow> string \<times> Query" where
  "buildWhere q field operation ps =
     (let wh = field @ '' '' @ operation in
      if length ps = 1 then (wh @ '' ?'', q\<lparr>params := params q @ [ps ! 0]\<rparr>)
      else if length ps > 1 then
        (let wh = wh @ '' ('';
             (wh, q) = fold (\<lambda>(i, param) (wh, q).
                 (let wh = wh @ ''?'';
                      q = q\<lparr>params := params q @ [param]\<rparr>
                  in if int i \<noteq> int (length ps) - 1 then (wh @ '','', q) else (wh, q)))
               (enumerate 0 ps) (wh, q)
         in (wh @ '')'', q))
      else (wh, q))"

definition Where :: "DBField \<Rightarrow> DBOperation \<Rightarrow> any list \<Rightarrow> QueryBuilderOption" where
  "Where field operation ps = (\<lambda>q.
     (let (wh, q) = buildWhere q field operation ps
      in q\<lparr>where' := where' q @ [wh]\<rparr>))"

definition And :: "QueryBuilderOption list \<Rightarrow> QueryBuilderOption" where
  "And opts = (\<lambda>q. fold (\<lambda>opt q. opt q) opts q)"

definition Or :: "QueryBuilderOption list \<Rightarrow> QueryBuilderOption" where
  "Or opts = (\<lambda>q.
     (let temp = fold (\<lambda>opt q. opt q) opts zeroQuery;
          wh = fold (\<lambda>(i, w) wh.
                 (let wh = wh @ w
                  in if int i \<noteq> int (length (where' temp)) - 1 then wh @ '' OR '' else wh))
               (enumerate 0 (where' temp)) [];
          q = q\<lparr>where' := where' q @ [wh]\<rparr>
      in q\<lparr>params := params q @ params temp\<rparr>))"

definition Set :: "DBField \<Rightarrow> any \<Rightarrow> QueryBuilderOption" where
  "Set field v = (\<lambda>q.
     (let q = q\<lparr>sets := sets q @ [field]\<rparr>
      in q\<lparr>setParams := setParams q @ [v]\<rparr>))"

definition Raw :: "string \<Rightarrow> any list \<Rightarrow> QueryBuilderOption" where
  "Raw query ps = (\<lambda>q.
     (let q = q\<lparr>aggregations := aggregations q @ [query]\<rparr>
      in q\<lparr>aggregationParams := aggregationParams q @ ps\<rparr>))"

definition RawWhere :: "string \<Rightarrow> any list \<Rightarrow> QueryBuilderOption" where
  "RawWhere query ps = (\<lambda>q.
     (let q = q\<lparr>where' := where' q @ [query]\<rparr>
      in q\<lparr>params := params q @ ps\<rparr>))"

definition Join :: "DBTable \<Rightarrow> JoinType \<Rightarrow> DBField \<Rightarrow> DBField \<Rightarrow> QueryBuilderOption" where
  "Join table joinType on' equal' = (\<lambda>query.
     (let j = '' '' @ joinType @ '' JOIN '' @ table;
          j = (if on' \<noteq> [] \<and> equal' \<noteq> [] then j @ '' ON '' @ on' @ '' = '' @ equal' else j)
      in query\<lparr>join := join query @ [j]\<rparr>))"

definition Limit :: "int \<Rightarrow> QueryBuilderOption" where
  "Limit limit = (\<lambda>query.
     (let query = query\<lparr>aggregations := aggregations query @ [''LIMIT ?'']\<rparr>
      in query\<lparr>aggregationParams := aggregationParams query @ [AnyInt limit]\<rparr>))"

definition OrderBy :: "DBField \<Rightarrow> OrderByType \<Rightarrow> QueryBuilderOption" where
  "OrderBy field order = (\<lambda>query.
     query\<lparr>aggregations := aggregations query @ [''ORDER BY '' @ field @ '' '' @ order]\<rparr>)"

definition First :: QueryBuilderOption where
  "First = (\<lambda>query. query\<lparr>aggregations := aggregations query @ [''LIMIT 1'']\<rparr>)"

section \<open>Terminal builders\<close>

text \<open>
  Each builder is written clause by clause as in the source, the local \<open>resultParams\<close>
  included. \<open>NewQuery\<close> and \<open>NewDelete\<close> return \<open>query.params\<close>; \<open>NewUpdate\<close> returns
  \<open>resultParams\<close>.
\<close>

definition NewQuery :: "DBTable \<Rightarrow> DBField list \<Rightarrow> QueryBuilderOption list \<Rightarrow> string \<times> any list" where
  "NewQuery table flds opts =
     (let query = fold (\<lambda>opt q. opt q) opts (newQueryFor table);
          res = Select;
          res = (if length flds = 0 then res @ '' *'' else res);
          res = fold (\<lambda>(i, w) res.
                  (let res = res @ '' '' @ w
                   in if int i \<noteq> int (length flds) - 1 then res @ '','' else res))
                (enumerate 0 flds) res;
          res = res @ '' FROM'';
          res = res @ '' '' @ table;
          res = fold (\<lambda>j res. res @ j) (join query) res;
          resultParams = [];
          res = (if length (where' query) > 0
                 then fold (\<lambda>(i, w) res.
                        (let res = res @ w
                         in if int i \<noteq> int (length (where' query)) - 1 then res @ '' AND '' else res))
                      (enumerate 0 (where' query)) (res @ '' WHERE '')
                 else res);
          resultParams = resultParams @ params query;
          res = (if length (aggregations query) > 0
                 then fold (\<lambda>(i, ag) res.
                        (let res = res @ ag
                         in if int i \<noteq> int (length (aggregations query)) - 1 then res @ '' '' else res))
                      (enumerate 0 (aggregations query)) (res @ '' '')
                 else res);
          resultParams = resultParams @ aggregationParams query
      in (res, params query))"

definition NewInsert :: "DBTable \<Rightarrow> DBField list \<Rightarrow> string" where
  "NewInsert table flds =
     (let res = Insert @ '' '' @ table @ '' ('';
          values = '' VALUES ('';
          (res, values) = fold (\<lambda>(i, w) (res, values).
              (let res = res @ strings_Replace w (table @ ''.'') [] 11;
                   values = values @ ''?''
               in if int i \<noteq> int (length flds) - 1 then (res @ '', '', values @ '', '')
                  else (res, values)))
            (enumerate 0 flds) (res, values);
          res = res @ '')'' @ values @ '')''
      in res)"

definition NewUpdate :: "DBTable \<Rightarrow> QueryBuilderOption list \<Rightarrow> string \<times> any list" where
  "NewUpdate table opts =
     (let query = fold (\<lambda>opt q. opt q) opts (newQueryFor table);
          res = Update;
          res = res @ '' '' @ table;
          resultParams = [];
          res = res @ '' SET'';
          res = fold (\<lambda>(i, w) res.
                  (let res = res @ '' '' @ strings_Replace w (table @ ''.'') [] 1 @ '' = ?''
                   in if int i \<noteq> int (length (sets query)) - 1 then res @ '','' else res))
                (enumerate 0 (sets query)) res;
          resultParams = resultParams @ setParams query;
          res = fold (\<lambda>j res. res @ j) (join query) res;
          res = (if length (where' query) > 0
                 then fold (\<lambda>(i, w) res.
                        (let res = res @ w
                         in if int i \<noteq> int (length (where' query)) - 1 then res @ '' AND '' else res))
                      (enumerate 0 (where' query)) (res @ '' WHERE '')
                 else res);
          resultParams = resultParams @ params query;
          res = (if length (aggregations query) > 0
                 then fold (\<lambda>(i, ag) res.
                        (let res = res @ ag
                         in if int i \<noteq> int (length (aggregations query)) - 1 then res @ '' '' else res))
                      (enumerate 0 (aggregations query)) (res @ '' '')
                 else res);
          resultParams = resultParams @ aggregationParams query
      in (res, resultParams))"

definition NewDelete :: "DBTable \<Rightarrow> QueryBuilderOption list \<Rightarrow> string \<times> any list" where
  "NewDelete table opts =
     (let query = fold (\<lambda>opt q. opt q) opts (newQueryFor table);
          res = Delete;
          res = res @ '' FROM'';
          res = res @ '' '' @ table;
          resultParams = [];
          res = fold (\<lambda>j res. res @ j) (join query) res;
          res = (if length (where' query) > 0
                 then fold (\<lambda>(i, w) res.
                        (let res = res @ w
                         in if int i \<noteq> int (length (where' query)) - 1 then res @ '' AND '' else res))
                      (enumerate 0 (where' query)) (res @ '' WHERE '')
                 else res);
          resultParams = resultParams @ params query;
          res = (if length (aggregations query) > 0
                 then fold (\<lambda>(i, ag) res.
                        (let res = res @ ag
                         in if int i \<noteq> int (length (aggregations query)) - 1 then res @ '' '' else res))
                      (enumerate 0 (aggregations query)) (res @ '' '')
                 else res);
          resultParams = resultParams @ aggregationParams query
      in (res, params query))"

section \<open>Notions of the specification\<close>

text \<open>
  The specification speaks of fragments joined by a separator: none before the first
  fragment, none after the last one.
\<close>

fun joinWith :: "string \<Rightarrow> string list \<Rightarrow> string" where
  "joinWith sep [] = []"
| "joinWith sep [x] = x"
| "joinWith sep (x # y # ys) = x @ sep @ joinWith sep (y # ys)"

text \<open>\<open>contains s sub\<close>: the string \<open>sub\<close> occurs in \<open>s\<close> (Go's \<open>strings.Contains\<close>).\<close>

fun contains :: "string \<Rightarrow> string \<Rightarrow> bool" where
  "contains [] sub = (sub = [])"
| "contains (c # cs) sub = (prefix sub (c # cs) \<or> contains cs sub)"

text \<open>
  The qualifier stripping in the specification's words: a field name prefixed with
  \<open><entity>.\<close> loses that prefix, any other field name is emitted as it is. The insertion
  statement as the specification describes it is built on it, to be compared with
  \<open>NewInsert\<close>.
\<close>

definition stripQualifier :: "DBTable \<Rightarrow> DBField \<Rightarrow> DBField" where
  "stripQualifier table w =
     (if prefix (table @ ''.'') w then drop (length (table @ ''.'')) w else w)"

definition NewInsert_spec :: "DBTable \<Rightarrow> DBField list \<Rightarrow> string" where
  "NewInsert_spec table flds =
     ''INSERT INTO '' @ table @ '' ('' @ joinWith '', '' (map (stripQualifier table) flds)
       @ '') VALUES ('' @ joinWith '', '' (map (\<lambda>w. ''?'') flds) @ '')''"

text \<open>
  The mutation statement in the specification's words: \<open>UPDATE\<close>, the entity, \<open>SET\<close>, the
  assignment fragments \<open>field = ?\<close> separated by a comma and a space, the join fragments,
  \<open>WHERE\<close> with the predicate fragments joined by \<open> AND \<close> when there are any, the
  trailing fragments; and the assignment, predicate and trailing arguments in this order.
  How an assigned field is emitted is the parameter \<open>emit\<close>: \<open>id\<close> is the fragment
  \<open>field = ?\<close> of the field as given, \<open>stripQualifier table\<close> is the fragment with the
  entity prefix stripped. It is to be compared with \<open>NewUpdate\<close>.
\<close>

definition NewUpdate_spec ::
    "(DBField \<Rightarrow> DBField) \<Rightarrow> DBTable \<Rightarrow> QueryBuilderOption list \<Rightarrow> string \<times> any list" where
  "NewUpdate_spec emit table opts =
     (let query = fold (\<lambda>opt q. opt q) opts (newQueryFor table) in
      (''UPDATE '' @ table @ '' SET''
         @ (if sets query = [] then []
            else '' '' @ joinWith '', '' (map (\<lambda>w. emit w @ '' = ?'') (sets query)))
         @ concat (join query)
         @ (if where' query = [] then [] else '' WHERE '' @ joinWith '' AND '' (where' query))
         @ (if aggregations query = [] then []
            else '' '' @ joinWith '' '' (aggregations query)),
       setParams query @ params query @ aggregationParams query))"

text \<open>A predicate contributor with exactly one value, given as a triple.\<close>

definition oneValue :: "DBField \<times> DBOperation \<times> any \<Rightarrow> QueryBuilderOption" where
  "oneValue p = (case p of (field, operation, v) \<Rightarrow> Where field operation [v])"

section \<open>The loops in closed form\<close>

lemma joinWith_Cons: "ys \<noteq> [] \<Longrightarrow> joinWith sep (x # ys) = x @ sep @ joinWith sep ys"
  by (cases ys) simp_all


lemma joinWith_map_prefix:
  "ws \<noteq> [] \<Longrightarrow> joinWith sep (map (\<lambda>w. p @ g w) ws) = p @ joinWith (sep @ p) (map g ws)"
proof (induction ws)
  case Nil
  then show ?case by simp
next
  case (Cons w ws)
  then show ?case by (cases ws) simp_all
qed

lemma range_join_gen:
  "n = k + length ws \<Longrightarrow>
   fold (\<lambda>(i, w) res. if int i \<noteq> int n - 1 then (res @ g w) @ sep else res @ g w)
     (enumerate k ws) res = res @ joinWith sep (map g ws)"
proof (induction ws arbitrary: k res)
  case Nil
  then show ?case by simp
next
  case (Cons w ws)
  show ?case
  proof (cases ws)
    case Nil
    with Cons.prems show ?thesis by simp
  next
    case (Cons v vs)
    have "n = Suc k + length ws" using Cons.prems by simp
    from Cons.IH [OF this] Cons Cons.prems show ?thesis by simp
  qed
qed

lemma range_join:
  "fold (\<lambda>(i, w) res. if int i \<noteq> int (length ws) - 1 then (res @ g w) @ sep else res @ g w)
     (enumerate 0 ws) res = res @ joinWith sep (map g ws)"
  by (rule range_join_gen) simp

lemma range_join_id:
  "fold (\<lambda>(i, w) res. if int i \<noteq> int (length ws) - 1 then (res @ w) @ sep else res @ w)
     (enumerate 0 ws) res = res @ joinWith sep ws"
  using range_join [of ws "\<lambda>w. w" sep res] by simp

lemma fold_append_concat: "fold (\<lambda>j res. res @ j) js res = res @ concat js"
  by (induction js arbitrary: res) simp_all

section \<open>The terminal builders in closed form\<close>

lemma NewQuery_closed:
  "NewQuery table flds opts =
     (''SELECT'' @ (if flds = [] then '' *'' else '' '' @ joinWith '', '' flds)
        @ '' FROM '' @ table
        @ concat (join (fold (\<lambda>opt q. opt q) opts (newQueryFor table)))
        @ (if where' (fold (\<lambda>opt q. opt q) opts (newQueryFor table)) = [] then []
           else '' WHERE '' @ joinWith '' AND '' (where' (fold (\<lambda>opt q. opt q) opts (newQueryFor table))))
        @ (if aggregations (fold (\<lambda>opt q. opt q) opts (newQueryFor table)) = [] then []
           else '' '' @ joinWith '' '' (aggregations (fold (\<lambda>opt q. opt q) opts (newQueryFor table)))),
      params (fold (\<lambda>opt q. opt q) opts (newQueryFor table)))"
  unfolding NewQuery_def Let_def range_join range_join_id fold_append_concat
  by (simp add: Select_def joinWith_map_prefix [where g = "\<lambda>w. w", simplified])

lemma NewDelete_closed:
  "NewDelete table opts =
     (''DELETE FROM '' @ table
        @ concat (join (fold (\<lambda>opt q. opt q) opts (newQueryFor table)))
        @ (if where' (fold (\<lambda>opt q. opt q) opts (newQueryFor table)) = [] then []
           else '' WHERE '' @ joinWith '' AND '' (where' (fold (\<lambda>opt q. opt q) opts (newQueryFor table))))
        @ (if aggregations (fold (\<lambda>opt q. opt q) opts (newQueryFor table)) = [] then []
           else '' '' @ joinWith '' '' (aggregations (fold (\<lambda>opt q. opt q) opts (newQueryFor table)))),
      params (fold (\<lambda>opt q. opt q) opts (newQueryFor table)))"
  unfolding NewDelete_def Let_def range_join_id fold_append_concat
  by (simp add: Delete_def)

lemma joinWith_space_prefix:
  "ws \<noteq> [] \<Longrightarrow>
   joinWith '','' (map (\<lambda>w. CHR '' '' # g w) ws) = CHR '' '' # joinWith '', '' (map g ws)"
  using joinWith_map_prefix [of ws "'',''" "'' ''" g] by simp

lemma NewUpdate_closed:
  "NewUpdate table opts =
     (''UPDATE '' @ table @ '' SET''
        @ (if sets (fold (\<lambda>opt q. opt q) opts (newQueryFor table)) = [] then []
           else '' '' @ joinWith '', ''
             (map (\<lambda>w. strings_Replace w (table @ ''.'') [] 1 @ '' = ?'')
               (sets (fold (\<lambda>opt q. opt q) opts (newQueryFor table)))))
        @ concat (join (fold (\<lambda>opt q. opt q) opts (newQueryFor table)))
        @ (if where' (fold (\<lambda>opt q. opt q) opts (newQueryFor table)) = [] then []
           else '' WHERE '' @ joinWith '' AND '' (where' (fold (\<lambda>opt q. opt q) opts (newQueryFor table))))
        @ (if aggregations (fold (\<lambda>opt q. opt q) opts (newQueryFor table)) = [] then []
           else '' '' @ joinWith '' '' (aggregations (fold (\<lambda>opt q. opt q) opts (newQueryFor table)))),
      setParams (fold (\<lambda>opt q. opt q) opts (newQueryFor table))
        @ params (fold (\<lambda>opt q. opt q) opts (newQueryFor table))
        @ aggregationParams (fold (\<lambda>opt q. opt q) opts (newQueryFor table)))"
  unfolding NewUpdate_def Let_def range_join range_join_id fold_append_concat
  by (simp add: Update_def joinWith_space_prefix)

lemma Or_closed:
  "Or opts q = q\<lparr>where' := where' q @ [joinWith '' OR '' (where' (fold (\<lambda>opt q. opt q) opts zeroQuery))],
                 params := params q @ params (fold (\<lambda>opt q. opt q) opts zeroQuery)\<rparr>"
  unfolding Or_def Let_def range_join_id
  by simp

lemma insert_loop_gen:
  "n = k + length ws \<Longrightarrow>
   fold (\<lambda>(i, w) (res, vals).
       if int i \<noteq> int n - 1 then ((res @ g w) @ '', '', (vals @ ''?'') @ '', '')
       else (res @ g w, vals @ ''?''))
     (enumerate k ws) (res, vals)
   = (res @ joinWith '', '' (map g ws), vals @ joinWith '', '' (map (\<lambda>w. ''?'') ws))"
proof (induction ws arbitrary: k res vals)
  case Nil
  then show ?case by simp
next
  case (Cons w ws)
  show ?case
  proof (cases ws)
    case Nil
    with Cons.prems show ?thesis by simp
  next
    case (Cons v vs)
    have "n = Suc k + length ws" using Cons.prems by simp
    from Cons.IH [OF this] Cons Cons.prems show ?thesis by simp
  qed
qed

lemma insert_loop:
  "fold (\<lambda>(i, w) (res, vals).
       if int i \<noteq> int (length ws) - 1 then ((res @ g w) @ '', '', (vals @ ''?'') @ '', '')
       else (res @ g w, vals @ ''?''))
     (enumerate 0 ws) (res, vals)
   = (res @ joinWith '', '' (map g ws), vals @ joinWith '', '' (map (\<lambda>w. ''?'') ws))"
  by (rule insert_loop_gen) simp

lemma NewInsert_closed:
  "NewInsert table flds =
     ''INSERT INTO '' @ table @ '' (''
       @ joinWith '', '' (map (\<lambda>w. strings_Replace w (table @ ''.'') [] 11) flds)
       @ '') VALUES ('' @ joinWith '', '' (map (\<lambda>w. ''?'') flds) @ '')''"
  unfolding NewInsert_def Let_def insert_loop
  by (simp add: Insert_def)

lemma where_loop_gen:
  "n = k + length ps \<Longrightarrow>
   fold (\<lambda>(i, param) (wh, q).
       if int i \<noteq> int n - 1 then ((wh @ ''?'') @ '','', q\<lparr>params := params q @ [param]\<rparr>)
       else (wh @ ''?'', q\<lparr>params := params q @ [param]\<rparr>))
     (enumerate k ps) (wh, q)
   = (wh @ joinWith '','' (replicate (length ps) ''?''), q\<lparr>params := params q @ ps\<rparr>)"
proof (induction ps arbitrary: k wh q)
  case Nil
  then show ?case by simp
next
  case (Cons p ps)
  show ?case
  proof (cases ps)
    case Nil
    with Cons.prems show ?thesis by simp
  next
    case (Cons v vs)
    have "n = Suc k + length ps" using Cons.prems by simp
    from Cons.IH [OF this] Cons Cons.prems show ?thesis by simp
  qed
qed

lemma where_loop:
  "fold (\<lambda>(i, param) (wh, q).
       if int i \<noteq> int (length ps) - 1 then ((wh @ ''?'') @ '','', q\<lparr>params := params q @ [param]\<rparr>)
       else (wh @ ''?'', q\<lparr>params := params q @ [param]\<rparr>))
     (enumerate 0 ps) (wh, q)
   = (wh @ joinWith '','' (replicate (length ps) ''?''), q\<lparr>params := params q @ ps\<rparr>)"
  by (rule where_loop_gen) simp

lemma singleton_nth: "length ps = 1 \<Longrightarrow> [ps ! 0] = ps"
  by (cases ps) simp_all

lemma buildWhere_closed:
  "buildWhere q field operation ps =
     (field @ '' '' @ operation @
        (if length ps = 1 then '' ?''
         else if length ps > 1 then '' ('' @ joinWith '','' (replicate (length ps) ''?'') @ '')''
         else []),
      q\<lparr>params := params q @ ps\<rparr>)"
  unfolding buildWhere_def Let_def where_loop
  by (cases ps) (auto simp add: singleton_nth)

lemma Where_closed:
  "Where field operation ps q =
     q\<lparr>where' := where' q @ [field @ '' '' @ operation @
        (if length ps = 1 then '' ?''
         else if length ps > 1 then '' ('' @ joinWith '','' (replicate (length ps) ''?'') @ '')''
         else [])],
       params := params q @ ps\<rparr>"
  unfolding Where_def buildWhere_closed Let_def
  by simp

section \<open>Predicate contributors\<close>

text \<open>
  Claim C3. \<open>Where field operation params\<close> appends exactly one predicate fragment and
  the given values, in call order, to the predicate arguments. With no value the fragment
  is \<open>field operation\<close>; with one value it is \<open>field operation ?\<close>; with \<open>k > 1\<close> values it is
  \<open>field operation (\<close>, then \<open>k\<close> placeholders separated by commas, then \<open>)\<close>.
\<close>

theorem Where_appends_fragment_and_values:
  "Where field operation ps q =
     q\<lparr>where' := where' q @
          [field @ '' '' @ operation @
             (case ps of
                [] \<Rightarrow> []
              | [v] \<Rightarrow> '' ?''
              | v # v' # vs \<Rightarrow> '' ('' @ joinWith '','' (replicate (length ps) ''?'') @ '')'')],
       params := params q @ ps\<rparr>"
  by (cases ps; cases "tl ps") (simp_all add: Where_closed)

text \<open>
  Claim C10. The not-equal operator renders as the words \<open>NOT EQUAL\<close>: for every field
  and value, \<open>Where f NotEqual v\<close> appends the fragment \<open>f NOT EQUAL ?\<close>. Every other
  operator renders as its SQL token.
\<close>

theorem NotEqual_renders_as_words:
  "where' (Where f NotEqual [v] q) = where' q @ [f @ '' NOT EQUAL ?'']
   \<and> where' (Where f Equal [v] q) = where' q @ [f @ '' = ?'']
   \<and> where' (Where f LessOrEqual [v] q) = where' q @ [f @ '' <= ?'']
   \<and> where' (Where f LessThan [v] q) = where' q @ [f @ '' < ?'']
   \<and> where' (Where f GreaterOrEqual [v] q) = where' q @ [f @ '' >= ?'']
   \<and> where' (Where f GreaterThan [v] q) = where' q @ [f @ '' > ?'']
   \<and> where' (Where f NotInt [v] q) = where' q @ [f @ '' NOT IN ?'']
   \<and> where' (Where f In [v] q) = where' q @ [f @ '' IN ?'']
   \<and> where' (Where f Like [v] q) = where' q @ [f @ '' LIKE ?'']"
  by (simp add: Where_closed NotEqual_def Equal_def LessOrEqual_def LessThan_def
      GreaterOrEqual_def GreaterThan_def NotInt_def In_def Like_def)

text \<open>
  Claim C7. \<open>And opts\<close> changes the accumulator exactly as the contributors of \<open>opts\<close>
  applied one after the other do, so a terminal builder returns the same statement and
  arguments for \<open>And opts\<close> as for \<open>opts\<close> listed in its place.
\<close>

theorem And_is_inline:
  "And opts q = fold (\<lambda>opt q. opt q) opts q
   \<and> NewQuery table flds (pre @ And opts # post) = NewQuery table flds (pre @ opts @ post)
   \<and> NewUpdate table (pre @ And opts # post) = NewUpdate table (pre @ opts @ post)
   \<and> NewDelete table (pre @ And opts # post) = NewDelete table (pre @ opts @ post)"
  by (simp add: And_def NewQuery_def NewUpdate_def NewDelete_def)

section \<open>Disjunction\<close>

lemma oneValue_fold:
  "params (fold (\<lambda>opt q. opt q) (map oneValue xs) q) = params q @ map (\<lambda>p. snd (snd p)) xs
   \<and> where' (fold (\<lambda>opt q. opt q) (map oneValue xs) q)
       = where' q @ map (\<lambda>p. fst p @ '' '' @ fst (snd p) @ '' ?'') xs
   \<and> setParams (fold (\<lambda>opt q. opt q) (map oneValue xs) q) = setParams q
   \<and> aggregationParams (fold (\<lambda>opt q. opt q) (map oneValue xs) q) = aggregationParams q"
  by (induction xs arbitrary: q) (simp_all add: oneValue_def Where_closed split: prod.splits)

text \<open>
  Claim C2. \<open>Or opts\<close> applies the nested contributors to a fresh accumulator, appends to
  the enclosing predicate fragments one fragment, the nested predicate fragments joined by
  \<open> OR \<close> without parentheses, and appends the nested predicate arguments after the
  enclosing ones. Hence, for one-value predicates before, inside and after an \<open>Or\<close>, the
  returned arguments are in the order of the contributors' calls.
\<close>

theorem Or_appends_one_fragment_and_nested_arguments:
  "where' (Or opts q)
     = where' q @ [joinWith '' OR '' (where' (fold (\<lambda>opt q. opt q) opts zeroQuery))]
   \<and> params (Or opts q) = params q @ params (fold (\<lambda>opt q. opt q) opts zeroQuery)
   \<and> where' (Or [Where f1 o1 [v1], Where f2 o2 [v2]] q)
       = where' q @ [f1 @ '' '' @ o1 @ '' ? OR '' @ f2 @ '' '' @ o2 @ '' ?'']
   \<and> snd (NewQuery table flds (map oneValue pre @ [Or (map oneValue inner)] @ map oneValue post))
       = map (\<lambda>p. snd (snd p)) (pre @ inner @ post)
   \<and> snd (NewUpdate table (map oneValue pre @ [Or (map oneValue inner)] @ map oneValue post))
       = map (\<lambda>p. snd (snd p)) (pre @ inner @ post)
   \<and> snd (NewDelete table (map oneValue pre @ [Or (map oneValue inner)] @ map oneValue post))
       = map (\<lambda>p. snd (snd p)) (pre @ inner @ post)"
proof -
  have frag: "where' (Or opts q)
      = where' q @ [joinWith '' OR '' (where' (fold (\<lambda>opt q. opt q) opts zeroQuery))]"
    by (simp add: Or_closed)
  have args: "params (Or opts q) = params q @ params (fold (\<lambda>opt q. opt q) opts zeroQuery)"
    by (simp add: Or_closed)
  have two: "where' (Or [Where f1 o1 [v1], Where f2 o2 [v2]] q)
      = where' q @ [f1 @ '' '' @ o1 @ '' ? OR '' @ f2 @ '' '' @ o2 @ '' ?'']"
    by (simp add: Or_closed Where_closed zeroQuery_def)
  let ?opts = "map oneValue pre @ [Or (map oneValue inner)] @ map oneValue post"
  let ?q = "fold (\<lambda>opt q. opt q) ?opts (newQueryFor table)"
  have p: "params ?q = map (\<lambda>p. snd (snd p)) (pre @ inner @ post)"
    by (simp add: oneValue_fold Or_closed newQueryFor_def zeroQuery_def)
  have s: "setParams ?q = []"
    by (simp add: oneValue_fold Or_closed newQueryFor_def)
  have a: "aggregationParams ?q = []"
    by (simp add: oneValue_fold Or_closed newQueryFor_def)
  have nq: "snd (NewQuery table flds ?opts) = map (\<lambda>p. snd (snd p)) (pre @ inner @ post)"
    unfolding NewQuery_closed snd_conv by (rule p)
  have nu: "snd (NewUpdate table ?opts) = map (\<lambda>p. snd (snd p)) (pre @ inner @ post)"
    using p s a unfolding NewUpdate_closed snd_conv by simp
  have nd: "snd (NewDelete table ?opts) = map (\<lambda>p. snd (snd p)) (pre @ inner @ post)"
    unfolding NewDelete_closed snd_conv by (rule p)
  from frag args two nq nu nd show ?thesis by blast
qed

text \<open>
  Claim C8. \<open>Or opts\<close> changes only the predicate fragments and the predicate arguments of
  the enclosing accumulator. What the nested contributors add to the joins, the
  assignments and the trailing clauses stays in the temporary accumulator and is lost:
  it reaches neither the statement nor the returned arguments.
\<close>

theorem Or_changes_predicates_only:
  "Or opts q = q\<lparr>where' := where' (Or opts q), params := params (Or opts q)\<rparr>
   \<and> Table (Or opts q) = Table q \<and> fields' (Or opts q) = fields' q
   \<and> join (Or opts q) = join q
   \<and> aggregations (Or opts q) = aggregations q
   \<and> aggregationParams (Or opts q) = aggregationParams q
   \<and> sets (Or opts q) = sets q \<and> setParams (Or opts q) = setParams q
   \<and> Or (opts @ [Join tb jt l r, Set f v, Raw s ps, Limit n, OrderBy g ord, First]) q = Or opts q
   \<and> Or [Join tb jt l r, Where f1 o1 vs1, Set f v, Raw s ps, Where f2 o2 vs2,
           Limit n, OrderBy g ord, First] q
       = Or [Where f1 o1 vs1, Where f2 o2 vs2] q
   \<and> NewUpdate table [Or [Join tb jt l r, Where f1 o1 vs1, Set f v, Raw s ps, Limit n,
           OrderBy g ord, First]]
       = NewUpdate table [Or [Where f1 o1 vs1]]"
proof -
  have frame: "Or opts q = q\<lparr>where' := where' (Or opts q), params := params (Or opts q)\<rparr>"
    by (simp add: Or_closed)
  have others: "Table (Or opts q) = Table q \<and> fields' (Or opts q) = fields' q
      \<and> join (Or opts q) = join q
      \<and> aggregations (Or opts q) = aggregations q
      \<and> aggregationParams (Or opts q) = aggregationParams q
      \<and> sets (Or opts q) = sets q \<and> setParams (Or opts q) = setParams q"
    by (simp add: Or_closed)
  have tail: "Or (opts @ [Join tb jt l r, Set f v, Raw s ps, Limit n, OrderBy g ord, First]) q
      = Or opts q"
    by (simp add: Or_closed Join_def Set_def Raw_def Limit_def OrderBy_def First_def Let_def)
  have mixed: "Or [Join tb jt l r, Where f1 o1 vs1, Set f v, Raw s ps, Where f2 o2 vs2,
        Limit n, OrderBy g ord, First] q
      = Or [Where f1 o1 vs1, Where f2 o2 vs2] q"
    by (simp add: Or_closed Where_closed Join_def Set_def Raw_def Limit_def OrderBy_def
        First_def Let_def)
  have upd: "NewUpdate table [Or [Join tb jt l r, Where f1 o1 vs1, Set f v, Raw s ps, Limit n,
        OrderBy g ord, First]]
      = NewUpdate table [Or [Where f1 o1 vs1]]"
    by (simp add: NewUpdate_closed Or_closed Where_closed Join_def Set_def Raw_def Limit_def
        OrderBy_def First_def Let_def)
  from frame others tail mixed upd show ?thesis by blast
qed


section \<open>Qualifier removal\<close>

lemma replaceFrom_absent: "\<not> contains s old \<Longrightarrow> replaceFrom s old new n = s"
  by (induction s arbitrary: n) simp_all

lemma replaceFrom_prefix:
  "old \<noteq> [] \<Longrightarrow> 0 < n \<Longrightarrow>
   replaceFrom (old @ x) old new n = new @ replaceFrom x old new (n - 1)"
  by (cases old) simp_all

lemma strings_Replace_absent: "\<not> contains w old \<Longrightarrow> strings_Replace w old [] n = w"
  by (cases w) (auto simp add: strings_Replace_def replaceFrom_absent)

lemma strings_Replace_strip:
  assumes "\<not> contains (stripQualifier table w) (table @ ''.'')"
  shows "strings_Replace w (table @ ''.'') [] (Suc n) = stripQualifier table w"
proof (cases "prefix (table @ ''.'') w")
  case True
  then obtain x where w: "w = (table @ ''.'') @ x"
    by (auto simp add: prefix_def)
  with assms have x: "\<not> contains x (table @ ''.'')"
    by (simp add: stripQualifier_def)
  have "strings_Replace w (table @ ''.'') [] (Suc n)
      = replaceFrom ((table @ ''.'') @ x) (table @ ''.'') [] (Suc n)"
    by (simp add: strings_Replace_def w)
  also have "\<dots> = replaceFrom x (table @ ''.'') [] n"
    by (subst replaceFrom_prefix) simp_all
  also have "\<dots> = x"
    using x by (rule replaceFrom_absent)
  finally show ?thesis
    by (simp add: stripQualifier_def w)
next
  case False
  with assms show ?thesis
    by (simp add: stripQualifier_def strings_Replace_absent)
qed

section \<open>Insertion\<close>

text \<open>
  Claim C5, as the specification states it, fails: the field \<open>admin_users.id\<close> is not
  prefixed with \<open>users.\<close>, yet \<open>NewInsert\<close> on the entity \<open>users\<close> removes the \<open>users.\<close>
  inside it.
\<close>

theorem NewInsert_prefix_only_counterexample:
  "NewInsert ''users'' [''admin_users.id''] = ''INSERT INTO users (admin_id) VALUES (?)''
   \<and> NewInsert_spec ''users'' [''admin_users.id'']
       = ''INSERT INTO users (admin_users.id) VALUES (?)''
   \<and> NewInsert ''users'' [''admin_users.id''] \<noteq> NewInsert_spec ''users'' [''admin_users.id'']"
  by (simp add: NewInsert_closed NewInsert_spec_def stripQualifier_def strings_Replace_def)

text \<open>
  Claim C5, amended. \<open>NewInsert\<close> renders \<open>INSERT INTO E (\<close>, the fields joined by a comma
  and a space, \<open>) VALUES (\<close>, one placeholder per field joined the same way, and \<open>)\<close>,
  where each field name is emitted with the occurrences of \<open>E.\<close> in it removed, the first
  11 from the left, wherever they stand. When no field name has an occurrence of \<open>E.\<close>
  other than one leading prefix, this is the statement of the specification: the prefix
  is removed and every other name is emitted as it is.
\<close>

theorem NewInsert_removes_qualifier_occurrences:
  "NewInsert table flds =
     ''INSERT INTO '' @ table @ '' (''
       @ joinWith '', '' (map (\<lambda>w. strings_Replace w (table @ ''.'') [] 11) flds)
       @ '') VALUES ('' @ joinWith '', '' (map (\<lambda>w. ''?'') flds) @ '')''
   \<and> ((\<forall>w \<in> set flds. \<not> contains (stripQualifier table w) (table @ ''.''))
        \<longrightarrow> NewInsert table flds = NewInsert_spec table flds)
   \<and> NewInsert ''users'' [''name'', ''address'', ''status'']
       = ''INSERT INTO users (name, address, status) VALUES (?, ?, ?)''"
proof -
  have general: "NewInsert table flds =
     ''INSERT INTO '' @ table @ '' (''
       @ joinWith '', '' (map (\<lambda>w. strings_Replace w (table @ ''.'') [] 11) flds)
       @ '') VALUES ('' @ joinWith '', '' (map (\<lambda>w. ''?'') flds) @ '')''"
    by (rule NewInsert_closed)
  have as_spec: "NewInsert table flds = NewInsert_spec table flds"
    if clean: "\<forall>w \<in> set flds. \<not> contains (stripQualifier table w) (table @ ''.'')"
  proof -
    have eq: "map (\<lambda>w. strings_Replace w (table @ ''.'') [] 11) flds
        = map (stripQualifier table) flds"
    proof (rule map_cong [OF refl])
      fix w assume "w \<in> set flds"
      with clean have "\<not> contains (stripQualifier table w) (table @ ''.'')" by blast
      then have "strings_Replace w (table @ ''.'') [] (Suc 10) = stripQualifier table w"
        by (rule strings_Replace_strip)
      then show "strings_Replace w (table @ ''.'') [] 11 = stripQualifier table w"
        by simp
    qed
    show ?thesis
      by (simp only: NewInsert_closed NewInsert_spec_def eq)
  qed
  have example: "NewInsert ''users'' [''name'', ''address'', ''status'']
       = ''INSERT INTO users (name, address, status) VALUES (?, ?, ?)''"
    by (simp add: NewInsert_closed strings_Replace_def)
  from general as_spec example show ?thesis by blast
qed

theorem NewInsert_removes_qualifier_occurrences_witness:
  "\<not> contains (stripQualifier ''users'' ''users.name'') (''users'' @ ''.'')
   \<and> \<not> contains (stripQualifier ''users'' ''address'') (''users'' @ ''.'')
   \<and> NewInsert ''users'' [''users.name'', ''address'']
       = NewInsert_spec ''users'' [''users.name'', ''address'']
   \<and> NewInsert_spec ''users'' [''users.name'', ''address'']
       = ''INSERT INTO users (name, address) VALUES (?, ?)''"
proof -
  have h1: "\<not> contains (stripQualifier ''users'' ''users.name'') (''users'' @ ''.'')"
    by (simp add: stripQualifier_def)
  have h2: "\<not> contains (stripQualifier ''users'' ''address'') (''users'' @ ''.'')"
    by (simp add: stripQualifier_def)
  have s: "NewInsert_spec ''users'' [''users.name'', ''address'']
       = ''INSERT INTO users (name, address) VALUES (?, ?)''"
    by (simp add: NewInsert_spec_def stripQualifier_def)
  from h1 h2
  have "\<forall>w \<in> set [''users.name'', ''address''].
      \<not> contains (stripQualifier ''users'' w) (''users'' @ ''.'')"
    by simp
  with NewInsert_removes_qualifier_occurrences [of "''users''" "[''users.name'', ''address'']"]
  have "NewInsert ''users'' [''users.name'', ''address'']
       = NewInsert_spec ''users'' [''users.name'', ''address'']"
    by blast
  with h1 h2 s show ?thesis by blast
qed

section \<open>Retrieval, mutation and removal\<close>

text \<open>
  Claim C6. \<open>NewQuery\<close> renders \<open>SELECT\<close>, then \<open>*\<close> for an empty field list or the field
  names joined by a comma and a space, then \<open>FROM\<close> and the entity, then the join fragments
  in the order they were appended, then, when there are predicate fragments, \<open>WHERE\<close> and
  the fragments joined by \<open> AND \<close>, then the trailing fragments joined by one space.
\<close>

theorem NewQuery_clause_order:
  "fst (NewQuery table flds opts) =
     (let query = fold (\<lambda>opt q. opt q) opts (newQueryFor table) in
      ''SELECT '' @ (if flds = [] then ''*'' else joinWith '', '' flds)
        @ '' FROM '' @ table
        @ concat (join query)
        @ (if where' query = [] then [] else '' WHERE '' @ joinWith '' AND '' (where' query))
        @ (if aggregations query = [] then []
           else '' '' @ joinWith '' '' (aggregations query)))
   \<and> fst (NewQuery table [] []) = ''SELECT * FROM '' @ table"
  by (simp add: NewQuery_closed Let_def newQueryFor_def)

text \<open>
  Claim C4, as the specification states it, fails: for the assignment of the field
  \<open>admin_users.id\<close> on the entity \<open>users\<close>, \<open>NewUpdate\<close> renders the fragment
  \<open>admin_id = ?\<close>, which is neither the field as given nor the field with a leading
  \<open>users.\<close> stripped.
\<close>

theorem NewUpdate_field_fragment_counterexample:
  "NewUpdate ''users'' [Set ''admin_users.id'' (AnyInt 1)]
     = (''UPDATE users SET admin_id = ?'', [AnyInt 1])
   \<and> NewUpdate_spec id ''users'' [Set ''admin_users.id'' (AnyInt 1)]
       = (''UPDATE users SET admin_users.id = ?'', [AnyInt 1])
   \<and> NewUpdate_spec (stripQualifier ''users'') ''users'' [Set ''admin_users.id'' (AnyInt 1)]
       = (''UPDATE users SET admin_users.id = ?'', [AnyInt 1])
   \<and> NewUpdate ''users'' [Set ''admin_users.id'' (AnyInt 1)]
       \<noteq> NewUpdate_spec id ''users'' [Set ''admin_users.id'' (AnyInt 1)]
   \<and> NewUpdate ''users'' [Set ''admin_users.id'' (AnyInt 1)]
       \<noteq> NewUpdate_spec (stripQualifier ''users'') ''users'' [Set ''admin_users.id'' (AnyInt 1)]"
  by (simp add: NewUpdate_closed NewUpdate_spec_def Set_def newQueryFor_def
      stripQualifier_def strings_Replace_def)

text \<open>
  Claim C4, amended. \<open>NewUpdate\<close> renders \<open>UPDATE\<close>, the entity and \<open>SET\<close>, then one
  fragment \<open>f = ?\<close> per assignment, separated by a comma and a space, where \<open>f\<close> is the
  assigned field with the first occurrence of \<open><entity>.\<close> removed, wherever it stands; then
  the join fragments, then, when there are predicate fragments, \<open>WHERE\<close> and the fragments
  joined by \<open> AND \<close>, then the trailing fragments. It returns the assignment arguments,
  then the predicate arguments, then the trailing arguments. When no assigned field has an
  occurrence of \<open><entity>.\<close> other than one leading prefix, this is the statement of the
  specification with the prefix stripped, and a field without the qualifier is rendered as
  given. One assignment of \<open>name\<close> to \<open>bla\<close> and the predicate \<open>users.id = 2\<close> give
  \<open>UPDATE users SET name = ? WHERE users.id = ?\<close> with the arguments \<open>bla\<close> and \<open>2\<close>.
\<close>

theorem NewUpdate_removes_first_qualifier_occurrence:
  "(let query = fold (\<lambda>opt q. opt q) opts (newQueryFor table) in
      NewUpdate table opts =
        (''UPDATE '' @ table @ '' SET''
           @ (if sets query = [] then []
              else '' '' @ joinWith '', ''
                (map (\<lambda>w. strings_Replace w (table @ ''.'') [] 1 @ '' = ?'') (sets query)))
           @ concat (join query)
           @ (if where' query = [] then [] else '' WHERE '' @ joinWith '' AND '' (where' query))
           @ (if aggregations query = [] then []
              else '' '' @ joinWith '' '' (aggregations query)),
         setParams query @ params query @ aggregationParams query)
      \<and> ((\<forall>w \<in> set (sets query). \<not> contains (stripQualifier table w) (table @ ''.''))
          \<longrightarrow> NewUpdate table opts = NewUpdate_spec (stripQualifier table) table opts))
   \<and> NewUpdate ''users'' [Set ''name'' (AnyString ''bla''), Where ''users.id'' Equal [AnyInt 2]]
       = (''UPDATE users SET name = ? WHERE users.id = ?'', [AnyString ''bla'', AnyInt 2])
   \<and> NewUpdate ''users'' [Set ''users.name'' v] = (''UPDATE users SET name = ?'', [v])
   \<and> NewUpdate ''users'' [Set ''users.users.x'' v] = (''UPDATE users SET users.x = ?'', [v])
   \<and> NewUpdate ''users'' [Set ''admin_users.id'' v] = (''UPDATE users SET admin_id = ?'', [v])"
proof -
  let ?query = "fold (\<lambda>opt q. opt q) opts (newQueryFor table)"
  have general: "NewUpdate table opts =
        (''UPDATE '' @ table @ '' SET''
           @ (if sets ?query = [] then []
              else '' '' @ joinWith '', ''
                (map (\<lambda>w. strings_Replace w (table @ ''.'') [] 1 @ '' = ?'') (sets ?query)))
           @ concat (join ?query)
           @ (if where' ?query = [] then [] else '' WHERE '' @ joinWith '' AND '' (where' ?query))
           @ (if aggregations ?query = [] then []
              else '' '' @ joinWith '' '' (aggregations ?query)),
         setParams ?query @ params ?query @ aggregationParams ?query)"
    by (rule NewUpdate_closed)
  have as_spec: "NewUpdate table opts = NewUpdate_spec (stripQualifier table) table opts"
    if clean: "\<forall>w \<in> set (sets ?query). \<not> contains (stripQualifier table w) (table @ ''.'')"
  proof -
    have eq: "map (\<lambda>w. strings_Replace w (table @ ''.'') [] 1 @ '' = ?'') (sets ?query)
        = map (\<lambda>w. stripQualifier table w @ '' = ?'') (sets ?query)"
    proof (rule map_cong [OF refl])
      fix w assume "w \<in> set (sets ?query)"
      with clean have "\<not> contains (stripQualifier table w) (table @ ''.'')" by blast
      then have "strings_Replace w (table @ ''.'') [] (Suc 0) = stripQualifier table w"
        by (rule strings_Replace_strip)
      then show "strings_Replace w (table @ ''.'') [] 1 @ '' = ?''
          = stripQualifier table w @ '' = ?''"
        by simp
    qed
    show ?thesis
      unfolding NewUpdate_spec_def Let_def by (simp only: NewUpdate_closed eq)
  qed
  have example:
    "NewUpdate ''users'' [Set ''name'' (AnyString ''bla''), Where ''users.id'' Equal [AnyInt 2]]
       = (''UPDATE users SET name = ? WHERE users.id = ?'', [AnyString ''bla'', AnyInt 2])"
    by (simp add: NewUpdate_closed Set_def Where_closed newQueryFor_def Equal_def
        strings_Replace_def)
  have prefixed: "NewUpdate ''users'' [Set ''users.name'' v] = (''UPDATE users SET name = ?'', [v])"
    by (simp add: NewUpdate_closed Set_def newQueryFor_def strings_Replace_def)
  have once: "NewUpdate ''users'' [Set ''users.users.x'' v]
      = (''UPDATE users SET users.x = ?'', [v])"
    by (simp add: NewUpdate_closed Set_def newQueryFor_def strings_Replace_def)
  have inner: "NewUpdate ''users'' [Set ''admin_users.id'' v]
      = (''UPDATE users SET admin_id = ?'', [v])"
    by (simp add: NewUpdate_closed Set_def newQueryFor_def strings_Replace_def)
  show ?thesis
    unfolding Let_def using general as_spec example prefixed once inner by blast
qed

theorem NewUpdate_removes_first_qualifier_occurrence_witness:
  "sets (fold (\<lambda>opt q. opt q)
        [Set ''users.name'' (AnyString ''bla''), Set ''age'' (AnyInt 3),
         Where ''users.id'' Equal [AnyInt 2], Limit 1] (newQueryFor ''users''))
     = [''users.name'', ''age'']
   \<and> \<not> contains (stripQualifier ''users'' ''users.name'') (''users'' @ ''.'')
   \<and> \<not> contains (stripQualifier ''users'' ''age'') (''users'' @ ''.'')
   \<and> NewUpdate ''users''
        [Set ''users.name'' (AnyString ''bla''), Set ''age'' (AnyInt 3),
         Where ''users.id'' Equal [AnyInt 2], Limit 1]
       = NewUpdate_spec (stripQualifier ''users'') ''users''
           [Set ''users.name'' (AnyString ''bla''), Set ''age'' (AnyInt 3),
            Where ''users.id'' Equal [AnyInt 2], Limit 1]
   \<and> NewUpdate_spec (stripQualifier ''users'') ''users''
        [Set ''users.name'' (AnyString ''bla''), Set ''age'' (AnyInt 3),
         Where ''users.id'' Equal [AnyInt 2], Limit 1]
       = (''UPDATE users SET name = ?, age = ? WHERE users.id = ? LIMIT ?'',
          [AnyString ''bla'', AnyInt 3, AnyInt 2, AnyInt 1])"
proof -
  let ?opts = "[Set ''users.name'' (AnyString ''bla''), Set ''age'' (AnyInt 3),
      Where ''users.id'' Equal [AnyInt 2], Limit 1]"
  have flds: "sets (fold (\<lambda>opt q. opt q) ?opts (newQueryFor ''users''))
      = [''users.name'', ''age'']"
    by (simp add: Set_def Where_closed Limit_def newQueryFor_def Let_def)
  have h1: "\<not> contains (stripQualifier ''users'' ''users.name'') (''users'' @ ''.'')"
    by (simp add: stripQualifier_def)
  have h2: "\<not> contains (stripQualifier ''users'' ''age'') (''users'' @ ''.'')"
    by (simp add: stripQualifier_def)
  have s: "NewUpdate_spec (stripQualifier ''users'') ''users'' ?opts
      = (''UPDATE users SET name = ?, age = ? WHERE users.id = ? LIMIT ?'',
         [AnyString ''bla'', AnyInt 3, AnyInt 2, AnyInt 1])"
    by (simp add: NewUpdate_spec_def Set_def Where_closed Limit_def newQueryFor_def Equal_def
        Let_def stripQualifier_def)
  from flds h1 h2
  have "\<forall>w \<in> set (sets (fold (\<lambda>opt q. opt q) ?opts (newQueryFor ''users''))).
      \<not> contains (stripQualifier ''users'' w) (''users'' @ ''.'')"
    by simp
  with NewUpdate_removes_first_qualifier_occurrence [of ?opts "''users''", unfolded Let_def]
  have "NewUpdate ''users'' ?opts = NewUpdate_spec (stripQualifier ''users'') ''users'' ?opts"
    by blast
  with flds h1 h2 s show ?thesis by blast
qed

text \<open>
  Claim C1. \<open>NewQuery\<close> and \<open>NewDelete\<close> return the predicate arguments only: the trailing
  arguments are collected and then left out of the result. A retrieval with \<open>Limit 1\<close> and
  \<open>OrderBy users.id\<close> descending renders one placeholder and returns no argument, where
  the specification gives the arguments \<open>[1]\<close>.
\<close>

theorem NewQuery_drops_trailing_arguments:
  "NewQuery ''users'' [] [Limit 1, OrderBy ''users.id'' Desc]
     = (''SELECT * FROM users LIMIT ? ORDER BY users.id DESC'', [])
   \<and> NewDelete ''users'' [Limit 1] = (''DELETE FROM users LIMIT ?'', [])
   \<and> NewUpdate ''users'' [Limit 1] = (''UPDATE users SET LIMIT ?'', [AnyInt 1])
   \<and> snd (NewQuery table flds opts) = params (fold (\<lambda>opt q. opt q) opts (newQueryFor table))
   \<and> snd (NewDelete table opts) = params (fold (\<lambda>opt q. opt q) opts (newQueryFor table))"
  by (simp add: NewQuery_closed NewDelete_closed NewUpdate_closed Limit_def OrderBy_def
      newQueryFor_def Desc_def)

end
